theory Spec2Isabelle
  imports Main "HOL-Library.AList" "HOL-Library.Sublist"
begin

section \<open>Python values used by the command-line front end\<close>

text \<open>
  The front end (\<^verbatim>\<open>haptools/__main__.py\<close>) only parses options and dispatches to the
  modules \<^verbatim>\<open>karyogram\<close>, \<^verbatim>\<open>sim_genotype\<close>, \<^verbatim>\<open>sim_phenotype\<close> and \<^verbatim>\<open>transform\<close>.
  A Python \<^verbatim>\<open>str\<close> is modelled as a \<^typ>\<open>string\<close> whose characters are the code points
  below 256; an exception is a value of \<open>py_error\<close>, and a function that may raise returns
  \<open>py_error + 'a\<close>.
\<close>

datatype py_error =
    ValueError
  | UsageError string
  | StageError string

subsection \<open>\<^verbatim>\<open>str.split(sep)\<close> and \<^verbatim>\<open>sep.join(parts)\<close> for a one-character separator\<close>

fun split_acc :: "char \<Rightarrow> string \<Rightarrow> string \<Rightarrow> string list" where
  "split_acc sep cur [] = [rev cur]"
| "split_acc sep cur (c # cs) =
     (if c = sep then rev cur # split_acc sep [] cs else split_acc sep (c # cur) cs)"

definition str_split :: "string \<Rightarrow> char \<Rightarrow> string list" where
  "str_split s sep = split_acc sep [] s"

fun str_join :: "char \<Rightarrow> string list \<Rightarrow> string" where
  "str_join sep [] = []"
| "str_join sep [p] = p"
| "str_join sep (p # q # ps) = p @ sep # str_join sep (q # ps)"

subsection \<open>\<^verbatim>\<open>str.splitlines()\<close>\<close>

text \<open>
  The line boundaries of \<^verbatim>\<open>str.splitlines\<close> that lie below code point 256: line feed,
  vertical tab, form feed, carriage return, the file, group and record separators and
  NEL; a carriage return followed by a line feed is one boundary. A text that ends in a
  boundary has no empty last line.
\<close>

definition is_line_boundary :: "char \<Rightarrow> bool" where
  "is_line_boundary c \<longleftrightarrow>
     of_char c \<in> {10, 11, 12, 13, 28, 29, 30, 133 :: nat}"

fun splitlines_acc :: "string \<Rightarrow> string \<Rightarrow> string list" where
  "splitlines_acc cur [] = (if cur = [] then [] else [rev cur])"
| "splitlines_acc cur [c] =
     (if is_line_boundary c then [rev cur] else [rev (c # cur)])"
| "splitlines_acc cur (c # d # cs) =
     (if of_char c = (13::nat) \<and> of_char d = (10::nat) then rev cur # splitlines_acc [] cs
      else if is_line_boundary c then rev cur # splitlines_acc [] (d # cs)
      else splitlines_acc (c # cur) (d # cs))"

definition splitlines :: "string \<Rightarrow> string list" where
  "splitlines s = splitlines_acc [] s"

subsection \<open>\<^verbatim>\<open>dict(pairs)\<close>\<close>

text \<open>
  A \<^verbatim>\<open>dict\<close> is an association list in insertion order with distinct keys. \<^verbatim>\<open>dict(seq)\<close>
  inserts the elements of \<^verbatim>\<open>seq\<close> from left to right; a key seen again keeps its place and
  takes the new value; an element that is not of length 2 raises \<^verbatim>\<open>ValueError\<close>.
\<close>

type_synonym py_dict = "(string \<times> string) list"

fun dict_update_seq :: "py_dict \<Rightarrow> string list list \<Rightarrow> py_error + py_dict" where
  "dict_update_seq d [] = Inr d"
| "dict_update_seq d (item # items) =
     (case item of
        [k, v] \<Rightarrow> dict_update_seq (AList.update k v d) items
      | _ \<Rightarrow> Inl ValueError)"

definition dict_of :: "string list list \<Rightarrow> py_error + py_dict" where
  "dict_of items = dict_update_seq [] items"

section \<open>\<^verbatim>\<open>haptools karyogram\<close>\<close>

text \<open>The keyword call \<^verbatim>\<open>PlotKaryogram(bp, sample, out, centromeres_file=, title=, colors=)\<close>.\<close>

record plot_karyogram_call =
  pk_bp :: string
  pk_sample :: string
  pk_out :: string
  pk_centromeres_file :: "string option"
  pk_title :: "string option"
  pk_colors :: "py_dict option"

definition karyogram ::
  "string \<Rightarrow> string \<Rightarrow> string \<Rightarrow> string option \<Rightarrow> string option \<Rightarrow> string option
     \<Rightarrow> py_error + plot_karyogram_call" where
  "karyogram bp sample out title centromeres colors =
     (case colors of
        None \<Rightarrow>
          Inr \<lparr>pk_bp = bp, pk_sample = sample, pk_out = out,
               pk_centromeres_file = centromeres, pk_title = title, pk_colors = None\<rparr>
      | Some cs \<Rightarrow>
          (case dict_of (map (\<lambda>item. str_split item CHR '':'') (str_split cs CHR '','')) of
             Inl e \<Rightarrow> Inl e
           | Inr d \<Rightarrow>
               Inr \<lparr>pk_bp = bp, pk_sample = sample, pk_out = out,
                    pk_centromeres_file = centromeres, pk_title = title,
                    pk_colors = Some d\<rparr>))"

text \<open>The argument \<^verbatim>\<open>'L1:C1,...,Ln:Cn'\<close> written from its label/colour pairs.\<close>

definition colors_arg :: "(string \<times> string) list \<Rightarrow> string" where
  "colors_arg pairs = str_join CHR '','' (map (\<lambda>(l, c). l @ CHR '':'' # c) pairs)"

text \<open>A label or colour that the two splits leave whole.\<close>

definition no_delims :: "string \<Rightarrow> bool" where
  "no_delims s \<longleftrightarrow> CHR '','' \<notin> set s \<and> CHR '':'' \<notin> set s"

section \<open>\<^verbatim>\<open>haptools simgenotype\<close>\<close>

text \<open>
  The four functions imported from \<^verbatim>\<open>sim_genotype\<close> act on the outside world (files, the
  random generator, the clock), a state of type \<open>'w\<close> that is passed through; each returns
  or raises. \<open>'s\<close> is the type of the samples and \<open>'b\<close> of the breakpoints returned by
  \<^verbatim>\<open>simulate_gt\<close>, \<open>'c\<close> of the value returned by \<^verbatim>\<open>write_breakpoints\<close>, \<open>'t\<close> of a
  reading of \<^verbatim>\<open>time.time()\<close>.
\<close>

record ('w, 's, 'b, 'c, 't) sim_genotype =
  validate_params ::
    "string \<Rightarrow> string \<Rightarrow> string list \<Rightarrow> int \<Rightarrow> string \<Rightarrow> string \<Rightarrow> bool
       \<Rightarrow> 'w \<Rightarrow> (py_error + unit) \<times> 'w"
  simulate_gt ::
    "string \<Rightarrow> string \<Rightarrow> string list \<Rightarrow> int \<Rightarrow> int option
       \<Rightarrow> 'w \<Rightarrow> (py_error + 's \<times> 'b) \<times> 'w"
  write_breakpoints :: "'s \<Rightarrow> 'b \<Rightarrow> string \<Rightarrow> 'w \<Rightarrow> (py_error + 'c) \<times> 'w"
  output_vcf ::
    "'c \<Rightarrow> string \<Rightarrow> string \<Rightarrow> string \<Rightarrow> string \<Rightarrow> 'w \<Rightarrow> (py_error + unit) \<times> 'w"
  time_time :: "'w \<Rightarrow> 't \<times> 'w"

datatype stage = Validate_params | Simulate_gt | Write_breakpoints | Output_vcf

text \<open>
  What a run does, in order: the calls with their arguments, how each call ended, and the
  lines printed under \<^verbatim>\<open>--verbose\<close> (the message and the two clock readings whose
  difference is printed).
\<close>

datatype ('s, 'b, 'c, 't) event =
    Call_validate_params string string "string list" int string string bool
  | Call_simulate_gt string string "string list" int "int option"
  | Call_write_breakpoints 's 'b string
  | Call_output_vcf 'c string string string string
  | Returned stage
  | Raised stage py_error
  | Print string 't 't

definition simgenotype ::
  "('w, 's, 'b, 'c, 't) sim_genotype \<Rightarrow>
     string \<Rightarrow> string \<Rightarrow> string \<Rightarrow> string \<Rightarrow> string \<Rightarrow> int \<Rightarrow> int option \<Rightarrow> string \<Rightarrow> bool \<Rightarrow> bool
     \<Rightarrow> 'w \<Rightarrow> (py_error + unit) \<times> ('s, 'b, 'c, 't) event list \<times> 'w" where
  "simgenotype m invcf sample_info model mapdir out popsize seed chroms only_breakpoint verbose w0 =
     (let (start, w1) = time_time m w0;
          chroms = str_split chroms CHR '','';
          tr1 = [Call_validate_params model mapdir chroms popsize invcf sample_info only_breakpoint]
      in case validate_params m model mapdir chroms popsize invcf sample_info only_breakpoint w1 of
        (Inl e, w2) \<Rightarrow> (Inl e, tr1 @ [Raised Validate_params e], w2)
      | (Inr _, w2) \<Rightarrow>
     (let tr2 = tr1 @ [Returned Validate_params, Call_simulate_gt model mapdir chroms popsize seed]
      in case simulate_gt m model mapdir chroms popsize seed w2 of
        (Inl e, w3) \<Rightarrow> (Inl e, tr2 @ [Raised Simulate_gt e], w3)
      | (Inr (samples, breakpoints), w3) \<Rightarrow>
     (let tr3 = tr2 @ [Returned Simulate_gt, Call_write_breakpoints samples breakpoints out]
      in case write_breakpoints m samples breakpoints out w3 of
        (Inl e, w4) \<Rightarrow> (Inl e, tr3 @ [Raised Write_breakpoints e], w4)
      | (Inr breakpoints, w4) \<Rightarrow>
     (let tr4 = tr3 @ [Returned Write_breakpoints];
          (bp_end, w5) = time_time m w4;
          (vcf_start, w6) = time_time m w5;
          (r, tr5, w7) =
            (if \<not> only_breakpoint then
               (case output_vcf m breakpoints model invcf sample_info out w6 of
                  (Inl e, w) \<Rightarrow>
                    (Inl e,
                     tr4 @ [Call_output_vcf breakpoints model invcf sample_info out,
                            Raised Output_vcf e], w)
                | (Inr u, w) \<Rightarrow>
                    (Inr u,
                     tr4 @ [Call_output_vcf breakpoints model invcf sample_info out,
                            Returned Output_vcf], w))
             else (Inr (), tr4, w6))
      in case r of
        Inl e \<Rightarrow> (Inl e, tr5, w7)
      | Inr _ \<Rightarrow>
     (let (end, w8) = time_time m w7
      in if verbose then
           (Inr (),
            tr5 @ [Print ''Time elapsed for breakpoint simulation: '' bp_end start,
                   Print ''Time elapse for creating vcf: '' end vcf_start,
                   Print ''Time elapsed for simgenotype execution: '' end start], w8)
         else (Inr (), tr5, w8))))))"

text \<open>Readings of a trace.\<close>

fun is_output_vcf_call :: "('s, 'b, 'c, 't) event \<Rightarrow> bool" where
  "is_output_vcf_call (Call_output_vcf _ _ _ _ _) = True"
| "is_output_vcf_call _ = False"

fun called_stage :: "('s, 'b, 'c, 't) event \<Rightarrow> stage option" where
  "called_stage (Call_validate_params _ _ _ _ _ _ _) = Some Validate_params"
| "called_stage (Call_simulate_gt _ _ _ _ _) = Some Simulate_gt"
| "called_stage (Call_write_breakpoints _ _ _) = Some Write_breakpoints"
| "called_stage (Call_output_vcf _ _ _ _ _) = Some Output_vcf"
| "called_stage _ = None"

definition stages_called :: "('s, 'b, 'c, 't) event list \<Rightarrow> stage list" where
  "stages_called tr = List.map_filter called_stage tr"

text \<open>\<open>before a b tr\<close>: every occurrence of \<open>b\<close> in \<open>tr\<close> has an \<open>a\<close> somewhere to its left.\<close>

fun before_acc :: "bool \<Rightarrow> ('e \<Rightarrow> bool) \<Rightarrow> ('e \<Rightarrow> bool) \<Rightarrow> 'e list \<Rightarrow> bool" where
  "before_acc seen a b [] = True"
| "before_acc seen a b (e # es) = ((b e \<longrightarrow> seen) \<and> before_acc (seen \<or> a e) a b es)"

definition before :: "('e \<Rightarrow> bool) \<Rightarrow> ('e \<Rightarrow> bool) \<Rightarrow> 'e list \<Rightarrow> bool" where
  "before a b tr = before_acc False a b tr"

section \<open>\<^verbatim>\<open>haptools simphenotype\<close> and \<^verbatim>\<open>haptools transform\<close>\<close>

text \<open>
  \<^verbatim>\<open>log\<close> is the logger named \<^verbatim>\<open>"run"\<close>, configured at the level given by
  \<^verbatim>\<open>--verbosity\<close>. The values of \<^verbatim>\<open>--heritability\<close> and \<^verbatim>\<open>--prevalence\<close> are only
  handed on; their type is \<open>'f\<close>.
\<close>

record logger =
  log_name :: string
  log_level :: string

text \<open>The positional call of \<^verbatim>\<open>simulate_pt\<close>.\<close>

record 'f simulate_pt_call =
  pt_genotypes :: string
  pt_haplotypes :: string
  pt_replications :: int
  pt_heritability :: "'f option"
  pt_prevalence :: "'f option"
  pt_region :: "string option"
  pt_samples :: "string list option"
  pt_chunk_size :: "int option"
  pt_output :: string
  pt_log :: logger

text \<open>
  \<open>samples\<close> is the tuple of the \<^verbatim>\<open>--sample\<close> values (empty when the option is not
  given); \<open>samples_file\<close> is \<open>None\<close> without \<^verbatim>\<open>--samples-file\<close> and otherwise the
  open file, given by the text that \<^verbatim>\<open>read()\<close> returns. An open file is true as a
  condition, whatever its text.
\<close>

definition simphenotype ::
  "string \<Rightarrow> string \<Rightarrow> int \<Rightarrow> 'f option \<Rightarrow> 'f option \<Rightarrow> string option \<Rightarrow> string list
     \<Rightarrow> string option \<Rightarrow> int option \<Rightarrow> string \<Rightarrow> string \<Rightarrow> py_error + 'f simulate_pt_call" where
  "simphenotype genotypes haplotypes replications heritability prevalence region samples
       samples_file chunk_size output verbosity =
     (let log = \<lparr>log_name = ''run'', log_level = verbosity\<rparr>
      in if samples \<noteq> [] \<and> samples_file \<noteq> None then
           Inl (UsageError ''You may only use one of --sample or --samples-file but not both.'')
         else
           (let samples =
                  (case samples_file of
                     Some samps_file \<Rightarrow> Some (splitlines samps_file)
                   | None \<Rightarrow> if samples \<noteq> [] then Some samples else None)
            in Inr \<lparr>pt_genotypes = genotypes, pt_haplotypes = haplotypes,
                    pt_replications = replications, pt_heritability = heritability,
                    pt_prevalence = prevalence, pt_region = region, pt_samples = samples,
                    pt_chunk_size = chunk_size, pt_output = output, pt_log = log\<rparr>))"

text \<open>The positional call of \<^verbatim>\<open>transform_haps\<close>.\<close>

record transform_haps_call =
  th_genotypes :: string
  th_haplotypes :: string
  th_region :: "string option"
  th_samples :: "string list option"
  th_haplotype_ids :: "string set option"
  th_chunk_size :: "int option"
  th_discard_missing :: bool
  th_output :: string
  th_log :: logger

definition transform ::
  "string \<Rightarrow> string \<Rightarrow> string option \<Rightarrow> string list \<Rightarrow> string option \<Rightarrow> string list
     \<Rightarrow> int option \<Rightarrow> bool \<Rightarrow> string \<Rightarrow> string \<Rightarrow> py_error + transform_haps_call" where
  "transform genotypes haplotypes region samples samples_file haplotype_ids chunk_size
       discard_missing output verbosity =
     (let log = \<lparr>log_name = ''run'', log_level = verbosity\<rparr>
      in if samples \<noteq> [] \<and> samples_file \<noteq> None then
           Inl (UsageError ''You may only use one of --sample or --samples-file but not both.'')
         else
           (let samples =
                  (case samples_file of
                     Some samps_file \<Rightarrow> Some (splitlines samps_file)
                   | None \<Rightarrow> if samples \<noteq> [] then Some samples else None);
                haplotype_ids =
                  (if haplotype_ids \<noteq> [] then Some (set haplotype_ids) else None)
            in Inr \<lparr>th_genotypes = genotypes, th_haplotypes = haplotypes, th_region = region,
                    th_samples = samples, th_haplotype_ids = haplotype_ids,
                    th_chunk_size = chunk_size, th_discard_missing = discard_missing,
                    th_output = output, th_log = log\<rparr>))"

subsection \<open>The commands as \<^verbatim>\<open>click\<close> declares them\<close>

text \<open>
  \<^verbatim>\<open>click\<close> calls a command's function with one keyword argument for each parameter
  that the decorators declare, and no other; a parameter of the function that no
  decorator declares takes the default of its \<^verbatim>\<open>def\<close>. The records below have one field
  for each declared parameter, in the order of the decorators.
\<close>

record 'f simphenotype_params =
  sp_genotypes :: string
  sp_haplotypes :: string
  sp_replications :: int
  sp_heritability :: "'f option"
  sp_prevalence :: "'f option"
  sp_region :: "string option"
  sp_samples :: "string list"
  sp_samples_file :: "string option"
  sp_output :: string
  sp_verbosity :: string

definition simphenotype_command :: "'f simphenotype_params \<Rightarrow> py_error + 'f simulate_pt_call" where
  "simphenotype_command p =
     simphenotype (sp_genotypes p) (sp_haplotypes p) (sp_replications p) (sp_heritability p)
       (sp_prevalence p) (sp_region p) (sp_samples p) (sp_samples_file p)
       None
       (sp_output p) (sp_verbosity p)"

record transform_params =
  tp_genotypes :: string
  tp_haplotypes :: string
  tp_region :: "string option"
  tp_samples :: "string list"
  tp_samples_file :: "string option"
  tp_haplotype_ids :: "string list"
  tp_chunk_size :: "int option"
  tp_discard_missing :: bool
  tp_output :: string
  tp_verbosity :: string

definition transform_command :: "transform_params \<Rightarrow> py_error + transform_haps_call" where
  "transform_command p =
     transform (tp_genotypes p) (tp_haplotypes p) (tp_region p) (tp_samples p)
       (tp_samples_file p) (tp_haplotype_ids p) (tp_chunk_size p) (tp_discard_missing p)
       (tp_output p) (tp_verbosity p)"

text \<open>A samples file written one identifier per line, each line ended by a line feed.\<close>

definition samples_text :: "string list \<Rightarrow> string" where
  "samples_text ls = concat (map (\<lambda>l. l @ [CHR 0x0A]) ls)"

section \<open>A small \<^verbatim>\<open>sim_genotype\<close> to run the pipeline on\<close>

text \<open>
  The world is a counter of the calls made so far, which is also the clock.
  \<^verbatim>\<open>validate_params\<close> raises unless \<open>valid\<close>; \<^verbatim>\<open>simulate_gt\<close> returns one sample name for
  each chromosome and their number; \<^verbatim>\<open>write_breakpoints\<close> returns the name of its file.
\<close>

definition stub_sim_genotype :: "bool \<Rightarrow> (nat, string list, nat, string, nat) sim_genotype" where
  "stub_sim_genotype valid =
     \<lparr>validate_params = (\<lambda>model mapdir chroms popsize invcf sample_info only_breakpoint w.
          (if valid then Inr () else Inl (StageError ''invalid parameters''), Suc w)),
      simulate_gt = (\<lambda>model mapdir chroms popsize seed w.
          (Inr (map (\<lambda>c. ''Sample_'' @ c) chroms, length chroms), Suc w)),
      write_breakpoints = (\<lambda>samples breakpoints out w. (Inr (out @ ''.bp''), Suc w)),
      output_vcf = (\<lambda>breakpoints model invcf sample_info out w. (Inr (), Suc w)),
      time_time = (\<lambda>w. (w, Suc w))\<rparr>"

definition stub_run ::
  "bool \<Rightarrow> bool \<Rightarrow> (py_error + unit) \<times> (string list, nat, string, nat) event list \<times> nat" where
  "stub_run valid only_breakpoint =
     simgenotype (stub_sim_genotype valid) ''ref.vcf'' ''info.tab'' ''model.dat'' ''maps'' ''sim''
       10 (Some 7) ''1,2'' only_breakpoint False 0"

section \<open>The simgenotype pipeline: what a run calls, and in which order\<close>

text \<open>The three runs of the small module, evaluated.\<close>

lemma stub_run_valid_full:
  "stub_run True False =
     (Inr (),
      [Call_validate_params ''model.dat'' ''maps'' [''1'', ''2''] 10 ''ref.vcf'' ''info.tab'' False,
       Returned Validate_params,
       Call_simulate_gt ''model.dat'' ''maps'' [''1'', ''2''] 10 (Some 7),
       Returned Simulate_gt,
       Call_write_breakpoints [''Sample_1'', ''Sample_2''] 2 ''sim'',
       Returned Write_breakpoints,
       Call_output_vcf ''sim.bp'' ''model.dat'' ''ref.vcf'' ''info.tab'' ''sim'',
       Returned Output_vcf], 8)"
  by (simp add: stub_run_def simgenotype_def stub_sim_genotype_def str_split_def Let_def eval_nat_numeral)

lemma stub_run_valid_only_breakpoint:
  "stub_run True True =
     (Inr (),
      [Call_validate_params ''model.dat'' ''maps'' [''1'', ''2''] 10 ''ref.vcf'' ''info.tab'' True,
       Returned Validate_params,
       Call_simulate_gt ''model.dat'' ''maps'' [''1'', ''2''] 10 (Some 7),
       Returned Simulate_gt,
       Call_write_breakpoints [''Sample_1'', ''Sample_2''] 2 ''sim'',
       Returned Write_breakpoints], 7)"
  by (simp add: stub_run_def simgenotype_def stub_sim_genotype_def str_split_def Let_def eval_nat_numeral)

lemma stub_run_invalid:
  "stub_run False ob =
     (Inl (StageError ''invalid parameters''),
      [Call_validate_params ''model.dat'' ''maps'' [''1'', ''2''] 10 ''ref.vcf'' ''info.tab'' ob,
       Raised Validate_params (StageError ''invalid parameters'')], 2)"
  by (simp add: stub_run_def simgenotype_def stub_sim_genotype_def str_split_def Let_def eval_nat_numeral)

text \<open>
  Every run ends in one of six ways: one of the four calls raises, or the run ends without
  calling \<^verbatim>\<open>output_vcf\<close> because \<^verbatim>\<open>only_breakpoint\<close> is set, or it ends after
  \<^verbatim>\<open>output_vcf\<close> has returned. The last two may print three lines.
\<close>

lemma simgenotype_cases:
  assumes "simgenotype m invcf sample_info model mapdir out popsize seed chroms
             only_breakpoint verbose w = (r, tr, w')"
  defines "cs \<equiv> str_split chroms CHR '','' "
  defines "cv \<equiv> Call_validate_params model mapdir cs popsize invcf sample_info only_breakpoint"
  defines "cg \<equiv> Call_simulate_gt model mapdir cs popsize seed"
  obtains
    (validate_raises) e w2 where
      "validate_params m model mapdir cs popsize invcf sample_info only_breakpoint
         (snd (time_time m w)) = (Inl e, w2)"
      "r = Inl e" "tr = [cv, Raised Validate_params e]"
  | (simulate_raises) e w2 w3 where
      "validate_params m model mapdir cs popsize invcf sample_info only_breakpoint
         (snd (time_time m w)) = (Inr (), w2)"
      "simulate_gt m model mapdir cs popsize seed w2 = (Inl e, w3)"
      "r = Inl e" "tr = [cv, Returned Validate_params, cg, Raised Simulate_gt e]"
  | (write_raises) e s b w2 w3 w4 where
      "validate_params m model mapdir cs popsize invcf sample_info only_breakpoint
         (snd (time_time m w)) = (Inr (), w2)"
      "simulate_gt m model mapdir cs popsize seed w2 = (Inr (s, b), w3)"
      "write_breakpoints m s b out w3 = (Inl e, w4)"
      "r = Inl e"
      "tr = [cv, Returned Validate_params, cg, Returned Simulate_gt,
             Call_write_breakpoints s b out, Raised Write_breakpoints e]"
  | (only_breakpoint) s b c w2 w3 w4 pr where
      "validate_params m model mapdir cs popsize invcf sample_info only_breakpoint
         (snd (time_time m w)) = (Inr (), w2)"
      "simulate_gt m model mapdir cs popsize seed w2 = (Inr (s, b), w3)"
      "write_breakpoints m s b out w3 = (Inr c, w4)"
      "only_breakpoint" "r = Inr ()"
      "tr = [cv, Returned Validate_params, cg, Returned Simulate_gt,
             Call_write_breakpoints s b out, Returned Write_breakpoints] @ pr"
      "pr = [] \<or> (\<exists>m1 m2 m3 a1 a2 a3 b1 b2 b3. pr = [Print m1 a1 b1, Print m2 a2 b2, Print m3 a3 b3])"
  | (output_raises) e s b c w2 w3 w4 w6 where
      "validate_params m model mapdir cs popsize invcf sample_info only_breakpoint
         (snd (time_time m w)) = (Inr (), w2)"
      "simulate_gt m model mapdir cs popsize seed w2 = (Inr (s, b), w3)"
      "write_breakpoints m s b out w3 = (Inr c, w4)"
      "output_vcf m c model invcf sample_info out w6 = (Inl e, w')"
      "\<not> only_breakpoint" "r = Inl e"
      "tr = [cv, Returned Validate_params, cg, Returned Simulate_gt,
             Call_write_breakpoints s b out, Returned Write_breakpoints,
             Call_output_vcf c model invcf sample_info out, Raised Output_vcf e]"
  | (output_returns) s b c w2 w3 w4 w6 w7 pr where
      "validate_params m model mapdir cs popsize invcf sample_info only_breakpoint
         (snd (time_time m w)) = (Inr (), w2)"
      "simulate_gt m model mapdir cs popsize seed w2 = (Inr (s, b), w3)"
      "write_breakpoints m s b out w3 = (Inr c, w4)"
      "output_vcf m c model invcf sample_info out w6 = (Inr (), w7)"
      "\<not> only_breakpoint" "r = Inr ()"
      "tr = [cv, Returned Validate_params, cg, Returned Simulate_gt,
             Call_write_breakpoints s b out, Returned Write_breakpoints,
             Call_output_vcf c model invcf sample_info out, Returned Output_vcf] @ pr"
      "pr = [] \<or> (\<exists>m1 m2 m3 a1 a2 a3 b1 b2 b3. pr = [Print m1 a1 b1, Print m2 a2 b2, Print m3 a3 b3])"
proof -
  note defs = cs_def cv_def cg_def
  obtain start w1 where t0: "time_time m w = (start, w1)" by fastforce
  obtain rv w2 where v: "validate_params m model mapdir cs popsize invcf sample_info
      only_breakpoint w1 = (rv, w2)" by fastforce
  show thesis
  proof (cases rv)
    case (Inl e)
    with assms(1) t0 v have "r = Inl e" "tr = [cv, Raised Validate_params e]"
      by (simp_all add: simgenotype_def defs Let_def)
    with v t0 Inl show thesis by (intro validate_raises [of e w2]) simp_all
  next
    case (Inr u)
    with v have v': "validate_params m model mapdir cs popsize invcf sample_info
      only_breakpoint w1 = (Inr (), w2)" by simp
    obtain rg w3 where g: "simulate_gt m model mapdir cs popsize seed w2 = (rg, w3)"
      by fastforce
    show thesis
    proof (cases rg)
      case (Inl e)
      with assms(1) t0 v' g have "r = Inl e"
        "tr = [cv, Returned Validate_params, cg, Raised Simulate_gt e]"
        by (simp_all add: simgenotype_def defs Let_def)
      with v' g t0 Inl show thesis by (intro simulate_raises [of w2 e w3]) simp_all
    next
      case (Inr sb)
      obtain s b where sb: "sb = (s, b)" by (cases sb)
      with Inr g have g': "simulate_gt m model mapdir cs popsize seed w2 = (Inr (s, b), w3)"
        by simp
      obtain rw w4 where wr: "write_breakpoints m s b out w3 = (rw, w4)" by fastforce
      show thesis
      proof (cases rw)
        case (Inl e)
        with assms(1) t0 v' g' wr have "r = Inl e"
          "tr = [cv, Returned Validate_params, cg, Returned Simulate_gt,
             Call_write_breakpoints s b out, Raised Write_breakpoints e]"
          by (simp_all add: simgenotype_def defs Let_def)
        with v' g' wr t0 Inl show thesis by (intro write_raises [of w2 s b w3 e w4]) simp_all
      next
        case (Inr c)
        with wr have wr': "write_breakpoints m s b out w3 = (Inr c, w4)" by simp
        obtain bp_end w5 where t1: "time_time m w4 = (bp_end, w5)" by fastforce
        obtain vcf_start w6 where t2: "time_time m w5 = (vcf_start, w6)" by fastforce
        show thesis
        proof (cases only_breakpoint)
          case True
          obtain en w8 where t3: "time_time m w6 = (en, w8)" by fastforce
          from assms(1) t0 v' g' wr' t1 t2 t3 True have "r = Inr ()"
            "\<exists>pr. tr = [cv, Returned Validate_params, cg, Returned Simulate_gt,
               Call_write_breakpoints s b out, Returned Write_breakpoints] @ pr \<and>
               (pr = [] \<or> (\<exists>m1 m2 m3 a1 a2 a3 b1 b2 b3. pr = [Print m1 a1 b1, Print m2 a2 b2, Print m3 a3 b3]))"
            by (auto simp: simgenotype_def defs Let_def split: if_splits)
          with v' g' wr' t0 True show thesis
            by (elim exE conjE, intro only_breakpoint [of w2 s b w3 c w4]) simp_all
        next
          case False
          obtain ro w7 where o: "output_vcf m c model invcf sample_info out w6 = (ro, w7)"
            by fastforce
          show thesis
          proof (cases ro)
            case (Inl e)
            with assms(1) t0 v' g' wr' t1 t2 o False have "r = Inl e" "w' = w7"
              "tr = [cv, Returned Validate_params, cg, Returned Simulate_gt,
                 Call_write_breakpoints s b out, Returned Write_breakpoints,
                 Call_output_vcf c model invcf sample_info out, Raised Output_vcf e]"
              by (simp_all add: simgenotype_def defs Let_def)
            with v' g' wr' o t0 False Inl show thesis
              by (intro output_raises [of w2 s b w3 c w4 w6 e]) simp_all
          next
            case (Inr u)
            with o have o': "output_vcf m c model invcf sample_info out w6 = (Inr (), w7)"
              by simp
            obtain en w8 where t3: "time_time m w7 = (en, w8)" by fastforce
            from assms(1) t0 v' g' wr' t1 t2 t3 o' False have "r = Inr ()"
              "\<exists>pr. tr = [cv, Returned Validate_params, cg, Returned Simulate_gt,
                 Call_write_breakpoints s b out, Returned Write_breakpoints,
                 Call_output_vcf c model invcf sample_info out, Returned Output_vcf] @ pr \<and>
                 (pr = [] \<or> (\<exists>m1 m2 m3 a1 a2 a3 b1 b2 b3. pr = [Print m1 a1 b1, Print m2 a2 b2, Print m3 a3 b3]))"
              by (auto simp: simgenotype_def defs Let_def split: if_splits)
            with v' g' wr' o' t0 False show thesis
              by (elim exE conjE, intro output_returns [of w2 s b w3 c w4 w6 w7]) simp_all
          qed
        qed
      qed
    qed
  qed
qed


text \<open>
  Claim C1. With \<^verbatim>\<open>only_breakpoint\<close> set, no run calls \<^verbatim>\<open>output_vcf\<close>: the calls made are
  an initial part of \<^verbatim>\<open>validate_params\<close>, \<^verbatim>\<open>simulate_gt\<close>, \<^verbatim>\<open>write_breakpoints\<close>, and all
  three when the run ends without an exception, so that what \<^verbatim>\<open>write_breakpoints\<close> writes
  is the only output. Without the flag, \<^verbatim>\<open>output_vcf\<close> is called exactly once in a run
  where \<^verbatim>\<open>write_breakpoints\<close> has returned (as it has in every run that ends without an
  exception) and never in a run that an earlier call has ended with an exception; every
  call of \<^verbatim>\<open>output_vcf\<close> comes after the return of \<^verbatim>\<open>write_breakpoints\<close>.
\<close>

theorem simgenotype_only_breakpoint:
  assumes "simgenotype m invcf sample_info model mapdir out popsize seed chroms
             only_breakpoint verbose w = (r, tr, w')"
  shows "(only_breakpoint \<longrightarrow>
            filter is_output_vcf_call tr = [] \<and>
            prefix (stages_called tr) [Validate_params, Simulate_gt, Write_breakpoints] \<and>
            (r = Inr () \<longrightarrow>
               stages_called tr = [Validate_params, Simulate_gt, Write_breakpoints])) \<and>
         (\<not> only_breakpoint \<longrightarrow>
            length (filter is_output_vcf_call tr) =
              (if Returned Write_breakpoints \<in> set tr then 1 else 0) \<and>
            before (\<lambda>e. e = Returned Write_breakpoints) is_output_vcf_call tr \<and>
            (r = Inr () \<longrightarrow> Returned Write_breakpoints \<in> set tr))"
  using assms
  by (cases rule: simgenotype_cases)
     (auto simp: stages_called_def before_def List.map_filter_simps)

theorem simgenotype_only_breakpoint_witness:
  "(\<exists>tr w. stub_run True True = (Inr (), tr, w) \<and>
       filter is_output_vcf_call tr = [] \<and>
       stages_called tr = [Validate_params, Simulate_gt, Write_breakpoints]) \<and>
   (\<exists>tr w. stub_run True False = (Inr (), tr, w) \<and>
       Returned Write_breakpoints \<in> set tr \<and>
       length (filter is_output_vcf_call tr) = 1 \<and>
       before (\<lambda>e. e = Returned Write_breakpoints) is_output_vcf_call tr) \<and>
   (\<exists>e tr w. stub_run False False = (Inl e, tr, w) \<and>
       Returned Write_breakpoints \<notin> set tr \<and>
       length (filter is_output_vcf_call tr) = 0)"
proof -
  note a = simgenotype_only_breakpoint [OF stub_run_valid_only_breakpoint [unfolded stub_run_def]]
  note b = simgenotype_only_breakpoint [OF stub_run_valid_full [unfolded stub_run_def]]
  note c = simgenotype_only_breakpoint [OF stub_run_invalid [of False, unfolded stub_run_def]]
  show ?thesis
    using a b c
    by (simp add: stub_run_valid_only_breakpoint stub_run_valid_full stub_run_invalid)
qed


text \<open>
  Claim C2. The first thing a run does is to call \<^verbatim>\<open>validate_params\<close> on the model, the
  map directory, the chromosome list, the population size, the reference VCF, the sample
  information and the flag; \<^verbatim>\<open>simulate_gt\<close> and \<^verbatim>\<open>write_breakpoints\<close> are called only after
  \<^verbatim>\<open>validate_params\<close> has returned; and a run whose validation raises calls nothing else,
  so it writes no breakpoints.
\<close>

theorem simgenotype_validates_first:
  assumes "simgenotype m invcf sample_info model mapdir out popsize seed chroms
             only_breakpoint verbose w = (r, tr, w')"
  shows "(\<exists>rest. tr = Call_validate_params model mapdir (str_split chroms CHR '','') popsize
                        invcf sample_info only_breakpoint # rest) \<and>
         before (\<lambda>e. e = Returned Validate_params)
           (\<lambda>e. called_stage e = Some Simulate_gt \<or> called_stage e = Some Write_breakpoints) tr \<and>
         (\<forall>e. fst (validate_params m model mapdir (str_split chroms CHR '','') popsize
                    invcf sample_info only_breakpoint (snd (time_time m w))) = Inl e \<longrightarrow>
              r = Inl e \<and>
              tr = [Call_validate_params model mapdir (str_split chroms CHR '','') popsize
                      invcf sample_info only_breakpoint,
                    Raised Validate_params e])"
  using assms
  by (cases rule: simgenotype_cases) (auto simp: before_def)

theorem simgenotype_validates_first_witness:
  "(\<exists>tr w. stub_run True False = (Inr (), tr, w) \<and>
       Call_simulate_gt ''model.dat'' ''maps'' [''1'', ''2''] 10 (Some 7) \<in> set tr \<and>
       Call_write_breakpoints [''Sample_1'', ''Sample_2''] 2 ''sim'' \<in> set tr \<and>
       before (\<lambda>e. e = Returned Validate_params)
         (\<lambda>e. called_stage e = Some Simulate_gt \<or> called_stage e = Some Write_breakpoints) tr) \<and>
   fst (validate_params (stub_sim_genotype False) ''model.dat'' ''maps''
          (str_split ''1,2'' CHR '','') 10 ''ref.vcf'' ''info.tab'' False
          (snd (time_time (stub_sim_genotype False) 0))) = Inl (StageError ''invalid parameters'') \<and>
   (\<exists>w. stub_run False False =
      (Inl (StageError ''invalid parameters''),
       [Call_validate_params ''model.dat'' ''maps'' [''1'', ''2''] 10 ''ref.vcf'' ''info.tab'' False,
        Raised Validate_params (StageError ''invalid parameters'')], w))"
proof -
  note a = simgenotype_validates_first [OF stub_run_valid_full [unfolded stub_run_def]]
  note b = simgenotype_validates_first [OF stub_run_invalid [of False, unfolded stub_run_def]]
  have v: "fst (validate_params (stub_sim_genotype False) ''model.dat'' ''maps''
          (str_split ''1,2'' CHR '','') 10 ''ref.vcf'' ''info.tab'' False
          (snd (time_time (stub_sim_genotype False) 0))) = Inl (StageError ''invalid parameters'')"
    by (simp add: stub_sim_genotype_def)
  show ?thesis
    using a b v by (simp add: stub_run_valid_full stub_run_invalid str_split_def)
qed

text \<open>
  Claim C7. The calls of a run are an initial part of \<^verbatim>\<open>validate_params\<close>,
  \<^verbatim>\<open>simulate_gt\<close>, \<^verbatim>\<open>write_breakpoints\<close> and, unless \<^verbatim>\<open>only_breakpoint\<close> is set,
  \<^verbatim>\<open>output_vcf\<close>, in this order, and all of them when the run ends without an exception.
  \<^verbatim>\<open>write_breakpoints\<close> is given the samples and breakpoints that \<^verbatim>\<open>simulate_gt\<close> returned
  and the output prefix; \<^verbatim>\<open>output_vcf\<close> is given the value that \<^verbatim>\<open>write_breakpoints\<close>
  returned, the model, the reference VCF, the sample information and the output prefix.
\<close>

theorem simgenotype_stage_order:
  assumes "simgenotype m invcf sample_info model mapdir out popsize seed chroms
             only_breakpoint verbose w = (r, tr, w')"
  shows "prefix (stages_called tr)
           ([Validate_params, Simulate_gt, Write_breakpoints] @
            (if only_breakpoint then [] else [Output_vcf])) \<and>
         (r = Inr () \<longrightarrow>
            stages_called tr =
              [Validate_params, Simulate_gt, Write_breakpoints] @
              (if only_breakpoint then [] else [Output_vcf])) \<and>
         (\<forall>s b out'. Call_write_breakpoints s b out' \<in> set tr \<longrightarrow>
            out' = out \<and>
            (\<exists>w2 w3. simulate_gt m model mapdir (str_split chroms CHR '','') popsize seed w2
                        = (Inr (s, b), w3))) \<and>
         (\<forall>c model' invcf' sample_info' out'.
            Call_output_vcf c model' invcf' sample_info' out' \<in> set tr \<longrightarrow>
            model' = model \<and> invcf' = invcf \<and> sample_info' = sample_info \<and> out' = out \<and>
            (\<exists>s b w3 w4. Call_write_breakpoints s b out \<in> set tr \<and>
                          write_breakpoints m s b out w3 = (Inr c, w4)))"
  using assms
  by (cases rule: simgenotype_cases)
     (auto simp: stages_called_def List.map_filter_simps)

theorem simgenotype_stage_order_witness:
  "(\<exists>tr w. stub_run True False = (Inr (), tr, w) \<and>
       stages_called tr = [Validate_params, Simulate_gt, Write_breakpoints, Output_vcf] \<and>
       Call_write_breakpoints [''Sample_1'', ''Sample_2''] 2 ''sim'' \<in> set tr \<and>
       Call_output_vcf ''sim.bp'' ''model.dat'' ''ref.vcf'' ''info.tab'' ''sim'' \<in> set tr \<and>
       (\<exists>w2 w3. simulate_gt (stub_sim_genotype True) ''model.dat'' ''maps''
                   (str_split ''1,2'' CHR '','') 10 (Some 7) w2
                   = (Inr ([''Sample_1'', ''Sample_2''], 2), w3)) \<and>
       (\<exists>s b w3 w4. Call_write_breakpoints s b ''sim'' \<in> set tr \<and>
                     write_breakpoints (stub_sim_genotype True) s b ''sim'' w3
                     = (Inr ''sim.bp'', w4))) \<and>
   (\<exists>tr w. stub_run True True = (Inr (), tr, w) \<and>
       stages_called tr = [Validate_params, Simulate_gt, Write_breakpoints])"
proof -
  note a = simgenotype_stage_order [OF stub_run_valid_full [unfolded stub_run_def]]
  note b = simgenotype_stage_order [OF stub_run_valid_only_breakpoint [unfolded stub_run_def]]
  from a have a1:
    "stages_called (fst (snd (stub_run True False))) =
       [Validate_params, Simulate_gt, Write_breakpoints, Output_vcf]"
    by (simp add: stub_run_valid_full)
  from a have a2:
    "\<exists>w2 w3. simulate_gt (stub_sim_genotype True) ''model.dat'' ''maps''
                   (str_split ''1,2'' CHR '','') 10 (Some 7) w2
                   = (Inr ([''Sample_1'', ''Sample_2''], 2), w3)"
    by simp
  from a have a3:
    "\<exists>s b w3 w4. Call_write_breakpoints s b ''sim'' \<in> set (fst (snd (stub_run True False))) \<and>
                     write_breakpoints (stub_sim_genotype True) s b ''sim'' w3
                     = (Inr ''sim.bp'', w4)"
    unfolding stub_run_valid_full by simp
  from b have b1:
    "stages_called (fst (snd (stub_run True True))) =
       [Validate_params, Simulate_gt, Write_breakpoints]"
    by (simp add: stub_run_valid_only_breakpoint)
  show ?thesis
    using a1 a2 a3 b1 by (simp add: stub_run_valid_full stub_run_valid_only_breakpoint)
qed


section \<open>The sample options of simphenotype and transform\<close>

lemma LF_boundary: "is_line_boundary (CHR 0x0A)"
  by (simp add: is_line_boundary_def)

lemma splitlines_acc_line:
  "\<forall>c \<in> set l. \<not> is_line_boundary c \<Longrightarrow>
   splitlines_acc cur (l @ CHR 0x0A # rest) = (rev cur @ l) # splitlines_acc [] rest"
proof (induction l arbitrary: cur)
  case Nil
  show ?case by (cases rest) (simp_all add: LF_boundary)
next
  case (Cons c l)
  then have c: "\<not> is_line_boundary c"
    and IH: "splitlines_acc (c # cur) (l @ CHR 0x0A # rest)
               = (rev (c # cur) @ l) # splitlines_acc [] rest"
    by auto
  obtain d ds where "l @ CHR 0x0A # rest = d # ds" by (cases l) auto
  with c IH show ?case by (auto simp: is_line_boundary_def)
qed

lemma splitlines_samples_text:
  "\<forall>l \<in> set ls. \<forall>c \<in> set l. \<not> is_line_boundary c \<Longrightarrow> splitlines (samples_text ls) = ls"
  unfolding splitlines_def samples_text_def
  by (induction ls) (simp_all add: splitlines_acc_line)

text \<open>
  Claim C8. In both \<^verbatim>\<open>simphenotype\<close> and \<^verbatim>\<open>transform\<close>: with a \<^verbatim>\<open>--sample\<close> value and a
  \<^verbatim>\<open>--samples-file\<close> the command raises the usage error and makes no call; with a
  \<^verbatim>\<open>--samples-file\<close> alone the samples handed on are the lines of the file's text, which
  for a file of one identifier per line are these identifiers in their order; with
  neither option \<^verbatim>\<open>None\<close> is handed on.
\<close>

theorem samples_option_handling:
  "(samples \<noteq> [] \<longrightarrow>
      simphenotype genotypes haplotypes replications heritability prevalence region samples
        (Some file) chunk_size output verbosity
        = Inl (UsageError ''You may only use one of --sample or --samples-file but not both.'') \<and>
      transform genotypes haplotypes region samples (Some file) haplotype_ids chunk_size
        discard_missing output verbosity
        = Inl (UsageError ''You may only use one of --sample or --samples-file but not both.'')) \<and>
   map_sum id pt_samples
     (simphenotype genotypes haplotypes replications heritability prevalence region []
        (Some file) chunk_size output verbosity) = Inr (Some (splitlines file)) \<and>
   map_sum id th_samples
     (transform genotypes haplotypes region [] (Some file) haplotype_ids chunk_size
        discard_missing output verbosity) = Inr (Some (splitlines file)) \<and>
   ((\<forall>l \<in> set ls. \<forall>c \<in> set l. \<not> is_line_boundary c) \<longrightarrow>
      map_sum id pt_samples
        (simphenotype genotypes haplotypes replications heritability prevalence region []
           (Some (samples_text ls)) chunk_size output verbosity) = Inr (Some ls) \<and>
      map_sum id th_samples
        (transform genotypes haplotypes region [] (Some (samples_text ls)) haplotype_ids
           chunk_size discard_missing output verbosity) = Inr (Some ls)) \<and>
   map_sum id pt_samples
     (simphenotype genotypes haplotypes replications heritability prevalence region []
        None chunk_size output verbosity) = Inr None \<and>
   map_sum id th_samples
     (transform genotypes haplotypes region [] None haplotype_ids chunk_size
        discard_missing output verbosity) = Inr None"
  by (simp add: simphenotype_def transform_def splitlines_samples_text)

theorem samples_option_handling_witness:
  "[''HG00096''] \<noteq> [] \<and>
   simphenotype ''g.vcf'' ''h.hap'' 1 (None :: nat option) None None [''HG00096'']
     (Some (samples_text [''HG00097''])) None ''/dev/stdout'' ''ERROR''
     = Inl (UsageError ''You may only use one of --sample or --samples-file but not both.'') \<and>
   transform ''g.vcf'' ''h.hap'' None [''HG00096''] (Some (samples_text [''HG00097''])) []
     None False ''-'' ''ERROR''
     = Inl (UsageError ''You may only use one of --sample or --samples-file but not both.'') \<and>
   list_all (list_all (\<lambda>c. \<not> is_line_boundary c)) [''HG00096'', ''HG00097''] \<and>
   map_sum id pt_samples
     (simphenotype ''g.vcf'' ''h.hap'' 1 (None :: nat option) None None []
        (Some (samples_text [''HG00096'', ''HG00097''])) None ''/dev/stdout'' ''ERROR'')
     = Inr (Some [''HG00096'', ''HG00097'']) \<and>
   map_sum id th_samples
     (transform ''g.vcf'' ''h.hap'' None [] (Some (samples_text [''HG00096'', ''HG00097'']))
        [] None False ''-'' ''ERROR'')
     = Inr (Some [''HG00096'', ''HG00097''])"
proof -
  have ne: "[''HG00096''] \<noteq> []" by simp
  have nb: "\<forall>l \<in> set [''HG00096'', ''HG00097'']. \<forall>c \<in> set l. \<not> is_line_boundary c"
    by (simp add: is_line_boundary_def)
  note a = samples_option_handling
    [of "[''HG00096'']" "''g.vcf''" "''h.hap''" 1 "None :: nat option" None None
        "samples_text [''HG00097'']" None "''/dev/stdout''" "''ERROR''" "[]" False
        "[''HG00096'', ''HG00097'']"]
  note b = samples_option_handling
    [of "[''HG00096'']" "''g.vcf''" "''h.hap''" 1 "None :: nat option" None None
        "samples_text [''HG00097'']" None "''-''" "''ERROR''" "[]" False
        "[''HG00096'', ''HG00097'']"]
  show ?thesis
    using ne nb a b by (simp add: list_all_iff)
qed

text \<open>
  Claim C9. Every call of \<^verbatim>\<open>simulate_pt\<close> made by the \<^verbatim>\<open>simphenotype\<close> command has
  \<^verbatim>\<open>chunk_size\<close> \<^verbatim>\<open>None\<close>, although the function hands on whatever \<^verbatim>\<open>chunk_size\<close> it is
  given; the \<^verbatim>\<open>transform\<close> command hands on its \<^verbatim>\<open>--chunk-size\<close>, and every chunk size
  is reachable from it.
\<close>

theorem simphenotype_chunk_size:
  "(\<forall>call. simphenotype_command p = Inr call \<longrightarrow> pt_chunk_size call = None) \<and>
   (\<forall>call. simphenotype genotypes haplotypes replications heritability prevalence region
             samples samples_file chunk_size output verbosity = Inr call \<longrightarrow>
           pt_chunk_size call = chunk_size) \<and>
   (\<forall>call. transform_command q = Inr call \<longrightarrow> th_chunk_size call = tp_chunk_size q) \<and>
   (\<exists>q call. transform_command q = Inr call \<and> th_chunk_size call = Some n)"
proof -
  have "transform_command
          \<lparr>tp_genotypes = [], tp_haplotypes = [], tp_region = None, tp_samples = [],
           tp_samples_file = None, tp_haplotype_ids = [], tp_chunk_size = Some n,
           tp_discard_missing = False, tp_output = [], tp_verbosity = []\<rparr>
        = Inr \<lparr>th_genotypes = [], th_haplotypes = [], th_region = None, th_samples = None,
               th_haplotype_ids = None, th_chunk_size = Some n, th_discard_missing = False,
               th_output = [], th_log = \<lparr>log_name = ''run'', log_level = []\<rparr>\<rparr>"
    by (simp add: transform_command_def transform_def)
  then have "\<exists>q call. transform_command q = Inr call \<and> th_chunk_size call = Some n"
    by (metis transform_haps_call.select_convs(6))
  then show ?thesis
    by (auto simp: simphenotype_command_def simphenotype_def transform_command_def
          transform_def Let_def split: if_splits)
qed


theorem simphenotype_chunk_size_witness:
  "simphenotype_command
     \<lparr>sp_genotypes = ''g.pgen'', sp_haplotypes = ''h.hap'', sp_replications = 1,
      sp_heritability = (None :: nat option), sp_prevalence = None, sp_region = None,
      sp_samples = [], sp_samples_file = None, sp_output = ''/dev/stdout'',
      sp_verbosity = ''ERROR''\<rparr>
   = Inr \<lparr>pt_genotypes = ''g.pgen'', pt_haplotypes = ''h.hap'', pt_replications = 1,
          pt_heritability = None, pt_prevalence = None, pt_region = None, pt_samples = None,
          pt_chunk_size = None, pt_output = ''/dev/stdout'',
          pt_log = \<lparr>log_name = ''run'', log_level = ''ERROR''\<rparr>\<rparr> \<and>
   (\<exists>call. simphenotype ''g.pgen'' ''h.hap'' 1 (None :: nat option) None None [] None
             (Some 500) ''/dev/stdout'' ''ERROR'' = Inr call \<and> pt_chunk_size call = Some 500) \<and>
   (\<exists>call. transform_command
             \<lparr>tp_genotypes = ''g.pgen'', tp_haplotypes = ''h.hap'', tp_region = None,
              tp_samples = [], tp_samples_file = None, tp_haplotype_ids = [],
              tp_chunk_size = Some 500, tp_discard_missing = False, tp_output = ''-'',
              tp_verbosity = ''ERROR''\<rparr> = Inr call \<and>
           th_chunk_size call = Some 500)"
proof -
  let ?p = "\<lparr>sp_genotypes = ''g.pgen'', sp_haplotypes = ''h.hap'', sp_replications = 1,
      sp_heritability = (None :: nat option), sp_prevalence = None, sp_region = None,
      sp_samples = [], sp_samples_file = None, sp_output = ''/dev/stdout'',
      sp_verbosity = ''ERROR''\<rparr>"
  let ?q = "\<lparr>tp_genotypes = ''g.pgen'', tp_haplotypes = ''h.hap'', tp_region = None,
              tp_samples = [], tp_samples_file = None, tp_haplotype_ids = [],
              tp_chunk_size = Some 500, tp_discard_missing = False, tp_output = ''-'',
              tp_verbosity = ''ERROR''\<rparr>"
  have p: "\<exists>call. simphenotype_command ?p = Inr call"
    by (simp add: simphenotype_command_def simphenotype_def)
  have f: "\<exists>call. simphenotype ''g.pgen'' ''h.hap'' 1 (None :: nat option) None None [] None
             (Some 500) ''/dev/stdout'' ''ERROR'' = Inr call"
    by (simp add: simphenotype_def)
  have q: "\<exists>call. transform_command ?q = Inr call"
    by (simp add: transform_command_def transform_def)
  note a = simphenotype_chunk_size
    [of ?p "''g.pgen''" "''h.hap''" 1 "None :: nat option" None None "[]" None "Some 500"
        "''/dev/stdout''" "''ERROR''" ?q 500]
  from a p have e1: "\<exists>call. simphenotype_command ?p = Inr call \<and> pt_chunk_size call = None"
    by blast
  from a f have e2: "\<exists>call. simphenotype ''g.pgen'' ''h.hap'' 1 (None :: nat option) None None
      [] None (Some 500) ''/dev/stdout'' ''ERROR'' = Inr call \<and> pt_chunk_size call = Some 500"
    by blast
  from a q have e3: "\<exists>call. transform_command ?q = Inr call \<and> th_chunk_size call = Some 500"
    by (simp add: transform_command_def transform_def)
  from e1 have e1': "simphenotype_command ?p
   = Inr \<lparr>pt_genotypes = ''g.pgen'', pt_haplotypes = ''h.hap'', pt_replications = 1,
          pt_heritability = None, pt_prevalence = None, pt_region = None, pt_samples = None,
          pt_chunk_size = None, pt_output = ''/dev/stdout'',
          pt_log = \<lparr>log_name = ''run'', log_level = ''ERROR''\<rparr>\<rparr>"
    by (simp add: simphenotype_command_def simphenotype_def)
  from e1' e2 e3 show ?thesis by blast
qed

section \<open>The colours of the karyogram\<close>

lemma split_acc_no_sep: "sep \<notin> set p \<Longrightarrow> split_acc sep cur p = [rev cur @ p]"
  by (induction p arbitrary: cur) auto

lemma split_acc_sep:
  "sep \<notin> set p \<Longrightarrow> split_acc sep cur (p @ sep # rest) = (rev cur @ p) # split_acc sep [] rest"
  by (induction p arbitrary: cur) auto

lemma str_split_join:
  "ps \<noteq> [] \<Longrightarrow> \<forall>p \<in> set ps. sep \<notin> set p \<Longrightarrow> str_split (str_join sep ps) sep = ps"
proof (induction sep ps rule: str_join.induct)
  case (1 sep)
  then show ?case by simp
next
  case (2 sep p)
  then show ?case by (simp add: str_split_def split_acc_no_sep)
next
  case (3 sep p q ps)
  then have "str_split (str_join sep (q # ps)) sep = q # ps" by simp
  with 3 show ?case by (simp add: str_split_def split_acc_sep)
qed

lemma str_split_pair:
  "sep \<notin> set l \<Longrightarrow> sep \<notin> set c \<Longrightarrow> str_split (l @ sep # c) sep = [l, c]"
  by (simp add: str_split_def split_acc_sep split_acc_no_sep)

lemma dict_update_seq_pairs:
  "dict_update_seq d (map (\<lambda>(l, c). [l, c]) pairs) = Inr (fold (\<lambda>(k, v). AList.update k v) pairs d)"
  by (induction pairs arbitrary: d) (auto split: prod.splits)

lemma update_fresh: "k \<notin> fst ` set d \<Longrightarrow> AList.update k v d = d @ [(k, v)]"
  by (induction d) auto

lemma fold_update_distinct:
  "distinct (map fst pairs) \<Longrightarrow> fst ` set pairs \<inter> fst ` set d = {} \<Longrightarrow>
   fold (\<lambda>(k, v). AList.update k v) pairs d = d @ pairs"
proof (induction pairs arbitrary: d)
  case Nil
  then show ?case by simp
next
  case (Cons p pairs)
  obtain k v where p: "p = (k, v)" by (cases p)
  from Cons.prems p have fresh: "k \<notin> fst ` set d" by auto
  have "fold (\<lambda>(k, v). AList.update k v) pairs (d @ [(k, v)]) = (d @ [(k, v)]) @ pairs"
    using Cons.prems p by (intro Cons.IH) (auto simp: image_iff)
  then show ?case using p fresh by (simp add: update_fresh)
qed

lemma map_of_fold_update:
  "map_of (fold (\<lambda>(k, v). AList.update k v) pairs d) = map_of d ++ map_of (rev pairs)"
  by (induction pairs arbitrary: d) (auto simp: update_conv' split: prod.splits)

lemma split_colors_arg:
  assumes "pairs \<noteq> []" and "\<forall>(l, c) \<in> set pairs. no_delims l \<and> no_delims c"
  shows "map (\<lambda>item. str_split item CHR '':'') (str_split (colors_arg pairs) CHR '','')
         = map (\<lambda>(l, c). [l, c]) pairs"
proof -
  have "str_split (colors_arg pairs) CHR '','' = map (\<lambda>(l, c). l @ CHR '':'' # c) pairs"
    unfolding colors_arg_def using assms
    by (intro str_split_join) (auto simp: no_delims_def)
  moreover have "map (\<lambda>item. str_split item CHR '':'') (map (\<lambda>(l, c). l @ CHR '':'' # c) pairs)
     = map (\<lambda>(l, c). [l, c]) pairs"
    using assms(2) by (auto simp: no_delims_def str_split_pair)
  ultimately show ?thesis by simp
qed


text \<open>
  Claim C10. Without \<^verbatim>\<open>--colors\<close>, \<^verbatim>\<open>PlotKaryogram\<close> is called with \<^verbatim>\<open>colors=None\<close>. With
  \<^verbatim>\<open>--colors 'L1:C1,...,Ln:Cn'\<close>, where \<open>n\<close> is at least one and no label and no colour
  holds a comma or a colon, it is called with a dictionary in which the last colour given
  for a label is its value; when the labels differ from one another this is the
  dictionary of the pairs in their order, which maps each \<open>Li\<close> to \<open>Ci\<close>.
\<close>

theorem karyogram_colors:
  "karyogram bp sample out title centromeres None =
     Inr \<lparr>pk_bp = bp, pk_sample = sample, pk_out = out,
          pk_centromeres_file = centromeres, pk_title = title, pk_colors = None\<rparr> \<and>
   (pairs \<noteq> [] \<and> (\<forall>(l, c) \<in> set pairs. no_delims l \<and> no_delims c) \<longrightarrow>
      (\<exists>d. karyogram bp sample out title centromeres (Some (colors_arg pairs)) =
             Inr \<lparr>pk_bp = bp, pk_sample = sample, pk_out = out,
                  pk_centromeres_file = centromeres, pk_title = title, pk_colors = Some d\<rparr> \<and>
           map_of d = map_of (rev pairs) \<and>
           (distinct (map fst pairs) \<longrightarrow>
              d = pairs \<and> (\<forall>(l, c) \<in> set pairs. map_of d l = Some c))))"
proof -
  have "map_of pairs l = Some c" if "distinct (map fst pairs)" "(l, c) \<in> set pairs" for l c
    using that by simp
  then show ?thesis
    by (auto simp: karyogram_def dict_of_def split_colors_arg dict_update_seq_pairs
          map_of_fold_update fold_update_distinct)
qed

theorem karyogram_colors_witness:
  "[(''YRI'', ''blue''), (''CEU'', ''green'')] \<noteq> [] \<and>
   list_all (\<lambda>(l, c). no_delims l \<and> no_delims c) [(''YRI'', ''blue''), (''CEU'', ''green'')] \<and>
   distinct (map fst [(''YRI'', ''blue''), (''CEU'', ''green'')]) \<and>
   colors_arg [(''YRI'', ''blue''), (''CEU'', ''green'')] = ''YRI:blue,CEU:green'' \<and>
   karyogram ''5gen.bp'' ''Sample_1'' ''test.png'' None None (Some ''YRI:blue,CEU:green'') =
     Inr \<lparr>pk_bp = ''5gen.bp'', pk_sample = ''Sample_1'', pk_out = ''test.png'',
          pk_centromeres_file = None, pk_title = None,
          pk_colors = Some [(''YRI'', ''blue''), (''CEU'', ''green'')]\<rparr> \<and>
   map_of [(''YRI'', ''blue''), (''CEU'', ''green'')] ''CEU'' = Some ''green''"
proof -
  let ?pairs = "[(''YRI'', ''blue''), (''CEU'', ''green'')]"
  have h: "?pairs \<noteq> []" "\<forall>(l, c) \<in> set ?pairs. no_delims l \<and> no_delims c"
    "distinct (map fst ?pairs)"
    by (simp_all add: no_delims_def)
  have arg: "colors_arg ?pairs = ''YRI:blue,CEU:green''"
    by (simp add: colors_arg_def)
  from karyogram_colors [of "''5gen.bp''" "''Sample_1''" "''test.png''" None None ?pairs] h
  have "\<exists>d. karyogram ''5gen.bp'' ''Sample_1'' ''test.png'' None None (Some (colors_arg ?pairs)) =
             Inr \<lparr>pk_bp = ''5gen.bp'', pk_sample = ''Sample_1'', pk_out = ''test.png'',
                  pk_centromeres_file = None, pk_title = None, pk_colors = Some d\<rparr> \<and>
           d = ?pairs \<and> (\<forall>(l, c) \<in> set ?pairs. map_of d l = Some c)"
    by blast
  with h arg show ?thesis by (auto simp: list_all_iff)
qed


end
